theory Spec2Isabelle
  imports Complex_Main
begin

section \<open>The data processing service (applications/data-processor/main.py)\<close>

text \<open>
  The service is a FastAPI application with four routes. Every handler is a coroutine
  without a single \<^verbatim>\<open>await\<close>, so the event loop runs each call from its first
  statement to its \<^verbatim>\<open>return\<close> without interleaving another one; the module keeps
  no mutable global besides the \<^verbatim>\<open>app\<close> object itself, which no handler touches.
  A handler is therefore a function of its argument and of the clock reading
  \<^verbatim>\<open>time.time()\<close>, which is passed to the model as a parameter.

  Strings are \<^typ>\<open>string\<close>; the handlers only concatenate them, which commutes with
  any encoding of Python's code points into bytes.
\<close>

subsection \<open>Python values\<close>

text \<open>
  The values that travel as JSON. A Python \<^verbatim>\<open>dict\<close> keeps its insertion order, so an
  object is an association list. A float is a finite binary fraction, hence a real number.
\<close>

datatype json =
    JNull
  | JBool bool
  | JInt int
  | JFloat real
  | JStr string
  | JList "json list"
  | JObj "(string \<times> json) list"

type_synonym pydict = "(string \<times> json) list"

text \<open>\<^verbatim>\<open>int(x)\<close> of a float truncates towards zero.\<close>

definition py_int :: "real \<Rightarrow> int" where
  "py_int x = (if 0 \<le> x then \<lfloor>x\<rfloor> else \<lceil>x\<rceil>)"

text \<open>
  \<^verbatim>\<open>str(n)\<close> of an integer, which is what an f-string field \<^verbatim>\<open>{n}\<close> inserts: the
  decimal digits, most significant first, without leading zeros, after a minus sign when
  the integer is negative.
\<close>

definition digit_char :: "nat \<Rightarrow> char" where
  "digit_char d = char_of (48 + d)"

function str_nat :: "nat \<Rightarrow> string" where
  "str_nat n = (if n < 10 then [digit_char n] else str_nat (n div 10) @ [digit_char (n mod 10)])"
  by pat_completeness auto
termination
  by (relation "measure (\<lambda>n. n)") auto

declare str_nat.simps [simp del]

definition py_str_int :: "int \<Rightarrow> string" where
  "py_str_int i = (if i < 0 then CHR ''-'' # str_nat (nat (- i)) else str_nat (nat i))"

text \<open>
  The integer a decimal numeral denotes (the reading \<^verbatim>\<open>int(s)\<close> gives back); it is
  used to say which number the digits of a task id stand for.
\<close>

definition digit_value :: "char \<Rightarrow> nat" where
  "digit_value c = of_char c - 48"

definition decimal_nat :: "string \<Rightarrow> nat" where
  "decimal_nat s = foldl (\<lambda>acc c. 10 * acc + digit_value c) 0 s"

definition decimal_int :: "string \<Rightarrow> int" where
  "decimal_int s =
     (case s of
        [] \<Rightarrow> 0
      | c # cs \<Rightarrow> if c = CHR ''-'' then - int (decimal_nat cs) else int (decimal_nat s))"

subsection \<open>The request and response models\<close>

record HealthResponse =
  status :: string
  timestamp :: real
  version :: string

record ProcessingRequest =
  operation_type :: string
  data_source :: string
  parameters :: pydict

subsection \<open>The handlers\<close>

text \<open>The first argument of a handler that reads the clock is the value of \<^verbatim>\<open>time.time()\<close>.\<close>

definition health_check :: "real \<Rightarrow> HealthResponse" where
  "health_check now = \<lparr>status = ''healthy'', timestamp = now, version = ''1.0.0''\<rparr>"

definition readiness_check :: "real \<Rightarrow> pydict" where
  "readiness_check now = [(''status'', JStr ''ready''), (''timestamp'', JFloat now)]"

definition process_data :: "real \<Rightarrow> ProcessingRequest \<Rightarrow> pydict" where
  "process_data now request =
     (let task_id = ''task_'' @ py_str_int (py_int now) in
      [(''task_id'', JStr task_id),
       (''status'', JStr ''processing''),
       (''message'', JStr (''Started '' @ operation_type request @ '' processing'')),
       (''operation_type'', JStr (operation_type request)),
       (''data_source'', JStr (data_source request))])"

definition get_task_status :: "string \<Rightarrow> pydict" where
  "get_task_status task_id =
     [(''task_id'', JStr task_id),
      (''status'', JStr ''completed''),
      (''result'', JStr (''Processing completed for '' @ task_id))]"

subsection \<open>Routing\<close>

text \<open>
  The four routes registered on \<^verbatim>\<open>app\<close>. The body of a POST reaches
  \<^verbatim>\<open>process_data\<close> only after pydantic has built a \<^verbatim>\<open>ProcessingRequest\<close> from it,
  so the request carries the typed model; any string, the empty one included, is a valid
  \<^verbatim>\<open>str\<close> field. No route sets a status code and no handler raises, so the framework
  answers 200 with the returned value as the JSON body.

  The path of the lookup route is \<^verbatim>\<open>/api/tasks/{task_id}\<close>: the parameter stands for
  one path segment, which the router matches against \<^verbatim>\<open>[^/]+\<close>. A request
  \<open>GET_task s\<close> is the GET of the path \<^verbatim>\<open>/api/tasks/\<close> followed by \<open>s\<close>; when \<open>s\<close>
  is empty or holds a \<^verbatim>\<open>/\<close> no route matches, and the framework answers 404 with the
  body \<^verbatim>\<open>{"detail": "Not Found"}\<close> without calling a handler.
\<close>

datatype http_request =
    GET_health
  | GET_ready
  | POST_process ProcessingRequest
  | GET_task string

record http_response =
  status_code :: nat
  body :: json

definition health_json :: "HealthResponse \<Rightarrow> json" where
  "health_json h =
     JObj [(''status'', JStr (status h)), (''timestamp'', JFloat (timestamp h)),
           (''version'', JStr (version h))]"

definition routable :: "string \<Rightarrow> bool" where
  "routable task_id = (task_id \<noteq> [] \<and> CHR ''/'' \<notin> set task_id)"

definition not_found :: http_response where
  "not_found = \<lparr>status_code = 404, body = JObj [(''detail'', JStr ''Not Found'')]\<rparr>"

fun app :: "real \<Rightarrow> http_request \<Rightarrow> http_response" where
  "app now GET_health = \<lparr>status_code = 200, body = health_json (health_check now)\<rparr>"
| "app now GET_ready = \<lparr>status_code = 200, body = JObj (readiness_check now)\<rparr>"
| "app now (POST_process request) = \<lparr>status_code = 200, body = JObj (process_data now request)\<rparr>"
| "app now (GET_task task_id) =
     (if routable task_id then \<lparr>status_code = 200, body = JObj (get_task_status task_id)\<rparr>
      else not_found)"

text \<open>
  A run of the service: the requests it serves, each with the clock reading at the moment
  it is handled, in the order the event loop handles them. Nothing is carried from one
  call to the next, since the handlers read and write no variable outside their own frame.
\<close>

type_synonym event = "real \<times> http_request"

definition serve :: "event list \<Rightarrow> http_response list" where
  "serve evs = map (\<lambda>(now, req). app now req) evs"

text \<open>The response to a request handled at \<open>now\<close> after the run \<open>hist\<close>.\<close>

definition respond_after :: "event list \<Rightarrow> real \<Rightarrow> http_request \<Rightarrow> http_response" where
  "respond_after hist now req = last (serve (hist @ [(now, req)]))"

text \<open>A field of a JSON object response, \<^verbatim>\<open>resp.json()[key]\<close>.\<close>

definition field :: "http_response \<Rightarrow> string \<Rightarrow> json option" where
  "field resp key = (case body resp of JObj kvs \<Rightarrow> map_of kvs key | _ \<Rightarrow> None)"


section \<open>Auxiliary facts\<close>

subsection \<open>Decimal numerals\<close>

lemma of_char_digit_char: "d < 10 \<Longrightarrow> of_char (digit_char d) = 48 + d"
  by (simp add: digit_char_def)

lemma digit_value_digit_char: "d < 10 \<Longrightarrow> digit_value (digit_char d) = d"
  by (simp add: digit_value_def of_char_digit_char)

lemma digit_char_not_minus: "d < 10 \<Longrightarrow> digit_char d \<noteq> CHR ''-''"
proof
  assume d: "d < 10" and e: "digit_char d = CHR ''-''"
  from e have "(of_char (digit_char d) :: nat) = of_char (CHR ''-'')" by simp
  with d show False by (simp add: of_char_digit_char)
qed

lemma digit_char_not_slash: "d < 10 \<Longrightarrow> digit_char d \<noteq> CHR ''/''"
proof
  assume d: "d < 10" and e: "digit_char d = CHR ''/''"
  from e have "(of_char (digit_char d) :: nat) = of_char (CHR ''/'')" by simp
  with d show False by (simp add: of_char_digit_char)
qed

lemma decimal_nat_snoc: "decimal_nat (s @ [c]) = 10 * decimal_nat s + digit_value c"
  by (simp add: decimal_nat_def)

lemma decimal_nat_str_nat: "decimal_nat (str_nat n) = n"
proof (induction n rule: str_nat.induct)
  case (1 n)
  show ?case
  proof (cases "n < 10")
    case True
    then show ?thesis
      by (subst str_nat.simps) (simp add: decimal_nat_def digit_value_digit_char)
  next
    case False
    with "1" have "decimal_nat (str_nat (n div 10)) = n div 10" by simp
    with False show ?thesis
      by (subst str_nat.simps) (simp add: decimal_nat_snoc digit_value_digit_char)
  qed
qed

lemma str_nat_not_Nil: "str_nat n \<noteq> []"
  by (subst str_nat.simps) simp

lemma str_nat_no_minus: "CHR ''-'' \<notin> set (str_nat n)"
proof (induction n rule: str_nat.induct)
  case (1 n)
  show ?case
  proof (cases "n < 10")
    case True
    then show ?thesis
      using digit_char_not_minus [of n] by (subst str_nat.simps) auto
  next
    case False
    with "1" have "CHR ''-'' \<notin> set (str_nat (n div 10))" by simp
    moreover have "digit_char (n mod 10) \<noteq> CHR ''-''"
      by (rule digit_char_not_minus) simp
    ultimately show ?thesis using False
      by (subst str_nat.simps) auto
  qed
qed

lemma str_nat_no_slash: "CHR ''/'' \<notin> set (str_nat n)"
proof (induction n rule: str_nat.induct)
  case (1 n)
  show ?case
  proof (cases "n < 10")
    case True
    then show ?thesis
      using digit_char_not_slash [of n] by (subst str_nat.simps) auto
  next
    case False
    with "1" have "CHR ''/'' \<notin> set (str_nat (n div 10))" by simp
    moreover have "digit_char (n mod 10) \<noteq> CHR ''/''"
      by (rule digit_char_not_slash) simp
    ultimately show ?thesis using False
      by (subst str_nat.simps) auto
  qed
qed

lemma py_str_int_no_slash: "CHR ''/'' \<notin> set (py_str_int i)"
  by (simp add: py_str_int_def str_nat_no_slash)

lemma decimal_int_py_str_int: "decimal_int (py_str_int i) = i"
proof (cases "i < 0")
  case True
  then show ?thesis
    by (simp add: py_str_int_def decimal_int_def decimal_nat_str_nat)
next
  case False
  obtain c cs where s: "str_nat (nat i) = c # cs"
    using str_nat_not_Nil [of "nat i"] by (cases "str_nat (nat i)") auto
  have "c \<noteq> CHR ''-''"
    using str_nat_no_minus [of "nat i"] s by auto
  moreover have "decimal_nat (c # cs) = nat i"
    using decimal_nat_str_nat [of "nat i"] s by simp
  ultimately show ?thesis using False s
    by (simp add: py_str_int_def decimal_int_def)
qed

lemma py_str_int_inj: "py_str_int i = py_str_int j \<longleftrightarrow> i = j"
proof
  assume "py_str_int i = py_str_int j"
  then have "decimal_int (py_str_int i) = decimal_int (py_str_int j)" by simp
  then show "i = j" by (simp add: decimal_int_py_str_int)
qed simp

lemma py_int_nonneg: "0 \<le> x \<Longrightarrow> py_int x = \<lfloor>x\<rfloor>"
  by (simp add: py_int_def)

lemma py_int_neg: "x < 0 \<Longrightarrow> py_int x = \<lceil>x\<rceil>"
  by (simp add: py_int_def)

lemma py_int_near: "\<bar>of_int (py_int x) - x\<bar> < 1"
proof (cases "0 \<le> x")
  case True
  have "of_int \<lfloor>x\<rfloor> \<le> x" and "x < of_int \<lfloor>x\<rfloor> + 1"
    by linarith+
  then show ?thesis
    unfolding py_int_nonneg [OF True] by linarith
next
  case False
  then have neg: "x < 0" by simp
  have "x \<le> of_int \<lceil>x\<rceil>" and "of_int \<lceil>x\<rceil> < x + 1"
    by linarith+
  then show ?thesis
    unfolding py_int_neg [OF neg] by linarith
qed

lemma py_int_towards_zero: "\<bar>of_int (py_int x) :: real\<bar> \<le> \<bar>x\<bar>"
proof (cases "0 \<le> x")
  case True
  then have "0 \<le> \<lfloor>x\<rfloor>" by simp
  then have "(0::real) \<le> of_int \<lfloor>x\<rfloor>" by simp
  moreover have "of_int \<lfloor>x\<rfloor> \<le> x" by linarith
  ultimately show ?thesis
    unfolding py_int_nonneg [OF True] by linarith
next
  case False
  then have neg: "x < 0" by simp
  then have "\<lceil>x\<rceil> \<le> 0" by (simp add: ceiling_le_zero)
  then have "of_int \<lceil>x\<rceil> \<le> (0::real)" by simp
  moreover have "x \<le> of_int \<lceil>x\<rceil>" by linarith
  ultimately show ?thesis
    unfolding py_int_neg [OF neg] by linarith
qed

text \<open>The equations that evaluate the id of a concrete clock reading.\<close>

lemmas eval_id = py_int_def py_str_int_def str_nat.simps digit_char_def char_of_eq_iff

subsection \<open>Responses\<close>

lemma serve_append: "serve (xs @ ys) = serve xs @ serve ys"
  by (simp add: serve_def)

lemma serve_Cons: "serve ((now, req) # evs) = app now req # serve evs"
  by (simp add: serve_def)

lemma serve_Nil: "serve [] = []"
  by (simp add: serve_def)

lemma length_serve: "length (serve evs) = length evs"
  by (simp add: serve_def)

lemma respond_after_app: "respond_after hist now req = app now req"
  by (simp add: respond_after_def serve_def)

lemma field_JObj: "field \<lparr>status_code = c, body = JObj kvs\<rparr> key = map_of kvs key"
  by (simp add: field_def)

lemma field_POST: "field (app now (POST_process request)) key = map_of (process_data now request) key"
  by (simp add: field_def)

lemma routable_issued: "routable (''task_'' @ py_str_int i)"
  by (simp add: routable_def py_str_int_no_slash)

lemma app_GET_task_routable:
  "routable task_id \<Longrightarrow>
     app now (GET_task task_id) = \<lparr>status_code = 200, body = JObj (get_task_status task_id)\<rparr>"
  by simp

lemma app_GET_task_unroutable: "\<not> routable task_id \<Longrightarrow> app now (GET_task task_id) = not_found"
  by simp

lemma field_GET_task:
  "routable task_id \<Longrightarrow> field (app now (GET_task task_id)) key = map_of (get_task_status task_id) key"
  by (simp add: field_def)

lemma field_not_found_status: "field not_found ''status'' = None"
  by (simp add: not_found_def field_def)

lemma process_data_task_id:
  "map_of (process_data now request) ''task_id'' = Some (JStr (''task_'' @ py_str_int (py_int now)))"
  by (simp add: process_data_def Let_def)

lemma process_data_status:
  "map_of (process_data now request) ''status'' = Some (JStr ''processing'')"
  by (simp add: process_data_def Let_def)

lemma get_task_status_status:
  "map_of (get_task_status task_id) ''status'' = Some (JStr ''completed'')"
  by (simp add: get_task_status_def)

lemma get_task_status_result:
  "map_of (get_task_status task_id) ''result'' = Some (JStr (''Processing completed for '' @ task_id))"
  by (simp add: get_task_status_def)

lemma get_task_status_task_id:
  "map_of (get_task_status task_id) ''task_id'' = Some (JStr task_id)"
  by (simp add: get_task_status_def)

section \<open>The claims\<close>

text \<open>
  C6. For every task id string supplied, whether or not a submission ever issued it, the
  status lookup reports the status "completed": the handler echoes the id and never
  checks it against anything, and for every id that the route can supply to the handler
  (a non-empty path segment) the service answers 200 with the handler's record.
\<close>

theorem get_task_status_always_completed:
  "map_of (get_task_status task_id) ''status'' = Some (JStr ''completed'')
   \<and> map_of (get_task_status task_id) ''task_id'' = Some (JStr task_id)
   \<and> (routable task_id \<longrightarrow>
        app now (GET_task task_id) = \<lparr>status_code = 200, body = JObj (get_task_status task_id)\<rparr>
        \<and> field (app now (GET_task task_id)) ''status'' = Some (JStr ''completed''))"
  by (simp add: get_task_status_def field_JObj)

theorem get_task_status_always_completed_witness:
  "map_of (get_task_status ''never-issued'') ''status'' = Some (JStr ''completed'')
   \<and> map_of (get_task_status ''never-issued'') ''task_id'' = Some (JStr ''never-issued'')
   \<and> routable ''never-issued''
   \<and> app 5 (GET_task ''never-issued'') =
        \<lparr>status_code = 200, body = JObj (get_task_status ''never-issued'')\<rparr>
   \<and> field (app 5 (GET_task ''never-issued'')) ''status'' = Some (JStr ''completed'')"
proof -
  have r: "routable ''never-issued''"
    by (simp add: routable_def)
  with get_task_status_always_completed [of "''never-issued''" 5] show ?thesis
    by blast
qed



text \<open>
  C7. For every submission, the task id returned is made from the clock: it is "task_"
  followed by the decimal numeral of \<^verbatim>\<open>int(time.time())\<close>, the whole number of
  seconds of the current time (the clock reading with its fraction cut off).
\<close>

theorem task_id_from_clock:
  "map_of (process_data now request) ''task_id'' = Some (JStr (''task_'' @ py_str_int (py_int now)))
   \<and> decimal_int (py_str_int (py_int now)) = py_int now
   \<and> \<bar>of_int (py_int now) - now\<bar> < 1
   \<and> \<bar>of_int (py_int now) :: real\<bar> \<le> \<bar>now\<bar>"
  using process_data_task_id [of now request] decimal_int_py_str_int [of "py_int now"]
    py_int_near [of now] py_int_towards_zero [of now]
  by blast

text \<open>
  C10. No endpoint reads or writes shared task state. The response to a status lookup is
  the same after any run of the service, whatever submissions it holds, as on a fresh
  service; the response to a submission after any run is the one determined by its own
  request and the clock reading; and a call leaves the responses to all other calls of a
  run as they are.
\<close>

theorem no_shared_task_state:
  "respond_after hist now (GET_task task_id) = respond_after [] now' (GET_task task_id)
   \<and> respond_after hist now (POST_process request) = app now (POST_process request)
   \<and> respond_after hist now (POST_process request) = respond_after hist' now (POST_process request)
   \<and> serve (pre @ (t, req) # post) = serve pre @ app t req # serve post"
  by (simp add: respond_after_app serve_append serve_Cons)




text \<open>
  C2, as the spec states it: a submission whose operationType is the empty string fails
  with InvalidRequest (400). The handler never looks at the operation type but to echo
  it: the submission is answered 200 with a task id and the status "processing".
\<close>

theorem empty_operation_type_counterexample:
  "app 100.25 (POST_process \<lparr>operation_type = '''', data_source = ''x'', parameters = []\<rparr>)
     = \<lparr>status_code = 200,
        body = JObj [(''task_id'', JStr ''task_100''), (''status'', JStr ''processing''),
                     (''message'', JStr ''Started  processing''),
                     (''operation_type'', JStr ''''), (''data_source'', JStr ''x'')]\<rparr>"
  by (simp add: process_data_def eval_id)

text \<open>
  C2, amended: a submission whose operationType is the empty string is answered 200 with
  a task id and the status "processing"; no task record is created by it, in that the run
  with the submission is the run without it with this one response put in: every other
  response is unchanged.
\<close>

theorem empty_operation_type_accepted:
  "status_code (respond_after pre now
       (POST_process \<lparr>operation_type = '''', data_source = ds, parameters = ps\<rparr>)) = 200
   \<and> field (respond_after pre now
       (POST_process \<lparr>operation_type = '''', data_source = ds, parameters = ps\<rparr>)) ''status'' =
         Some (JStr ''processing'')
   \<and> field (respond_after pre now
       (POST_process \<lparr>operation_type = '''', data_source = ds, parameters = ps\<rparr>)) ''task_id'' =
         Some (JStr (''task_'' @ py_str_int (py_int now)))
   \<and> serve (pre @ (now, POST_process \<lparr>operation_type = '''', data_source = ds, parameters = ps\<rparr>) # post) =
         take (length pre) (serve (pre @ post))
         @ app now (POST_process \<lparr>operation_type = '''', data_source = ds, parameters = ps\<rparr>)
         # drop (length pre) (serve (pre @ post))"
  by (simp add: respond_after_app field_JObj process_data_status process_data_task_id
      serve_append serve_Cons length_serve)

text \<open>
  C3, as the spec states it: two distinct submissions receive distinct ids, also within
  the same second. Two different requests handled at 100.25 and at 100.75 seconds both
  receive "task_100".
\<close>

theorem same_second_ids_counterexample:
  "map (\<lambda>r. field r ''task_id'')
     (serve [(100.25, POST_process \<lparr>operation_type = ''sum'', data_source = ''a'', parameters = []\<rparr>),
             (100.75, POST_process \<lparr>operation_type = ''max'', data_source = ''b'', parameters = []\<rparr>)])
     = [Some (JStr ''task_100''), Some (JStr ''task_100'')]"
  by (simp add: serve_Cons serve_Nil field_JObj process_data_task_id eval_id)

text \<open>
  C3, amended: two submissions receive distinct ids exactly when their clock readings
  differ in their whole number of seconds, whatever the requests and whatever the service
  served before; two submissions within the same second receive the same id.
\<close>

theorem task_ids_equal_iff_same_second:
  "(field (respond_after hist1 now1 (POST_process request1)) ''task_id'' =
    field (respond_after hist2 now2 (POST_process request2)) ''task_id'')
   = (py_int now1 = py_int now2)"
  by (simp add: respond_after_app field_JObj process_data_task_id py_str_int_inj)

text \<open>
  C4, as the spec states it: a task that is submitted and polled at once is seen Pending
  first. The submission at 100.25 returns "task_100" with the status "processing", and
  the poll of "task_100" at the same clock reading already reports "completed".
\<close>

theorem first_poll_completed_counterexample:
  "map (\<lambda>r. (field r ''task_id'', field r ''status''))
     (serve [(100.25, POST_process \<lparr>operation_type = ''sum'', data_source = ''a'', parameters = []\<rparr>),
             (100.25, GET_task ''task_100'')])
     = [(Some (JStr ''task_100''), Some (JStr ''processing'')),
        (Some (JStr ''task_100''), Some (JStr ''completed''))]"
  by (simp add: serve_Cons serve_Nil field_JObj process_data_task_id process_data_status
      get_task_status_task_id get_task_status_status eval_id routable_def)

text \<open>
  C4, amended: for every submitted task, every poll of its id reports "completed",
  whenever it is made and whatever the service served before it. The sequence of polled
  statuses is constant, so it never regresses; Pending and Running are never observed,
  the submission's own response carrying the status "processing".
\<close>

theorem polling_always_completed:
  assumes "field (respond_after hist now (POST_process request)) ''task_id'' = Some (JStr task_id)"
  shows "map (\<lambda>(h, t). field (respond_after h t (GET_task task_id)) ''status'') polls
           = replicate (length polls) (Some (JStr ''completed''))
         \<and> field (respond_after hist now (POST_process request)) ''status'' = Some (JStr ''processing'')"
proof -
  from assms have "task_id = ''task_'' @ py_str_int (py_int now)"
    by (simp add: respond_after_app field_JObj process_data_task_id)
  then have r: "routable task_id"
    by (simp only: routable_issued)
  have "map (\<lambda>(h, t). field (respond_after h t (GET_task task_id)) ''status'') polls
          = replicate (length polls) (Some (JStr ''completed''))"
    by (induction polls)
      (auto simp: respond_after_app r field_JObj get_task_status_status)
  then show ?thesis
    by (simp add: respond_after_app field_JObj process_data_status)
qed

theorem polling_always_completed_witness:
  "field (respond_after [] 100.25
       (POST_process \<lparr>operation_type = ''sum'', data_source = ''a'', parameters = []\<rparr>)) ''task_id''
     = Some (JStr ''task_100'')
   \<and> (map (\<lambda>(h, t). field (respond_after h t (GET_task ''task_100'')) ''status'')
         [([], 100.25), ([(100.5, GET_ready)], 101), ([], 3600)]
         = replicate (length [([] :: event list, 100.25 :: real), ([(100.5, GET_ready)], 101), ([], 3600)])
             (Some (JStr ''completed''))
      \<and> field (respond_after [] 100.25
           (POST_process \<lparr>operation_type = ''sum'', data_source = ''a'', parameters = []\<rparr>)) ''status''
         = Some (JStr ''processing''))"
proof -
  have h: "field (respond_after [] 100.25
       (POST_process \<lparr>operation_type = ''sum'', data_source = ''a'', parameters = []\<rparr>)) ''task_id''
     = Some (JStr ''task_100'')"
    by (simp add: respond_after_app field_JObj process_data_task_id eval_id)
  show ?thesis
    by (rule conjI [OF h polling_always_completed [OF h]])
qed

text \<open>
  C5, as the spec states it: POST /api/process returns 400 exactly on InvalidRequest,
  which the spec raises for an empty operationType. A request with the empty operation
  type is answered 200, not 400.
\<close>

theorem invalid_request_not_400_counterexample:
  "operation_type \<lparr>operation_type = '''', data_source = ''db'', parameters = [(''k'', JInt 1)]\<rparr> = ''''
   \<and> status_code (app 7
        (POST_process \<lparr>operation_type = '''', data_source = ''db'', parameters = [(''k'', JInt 1)]\<rparr>)) = 200
   \<and> status_code (app 7
        (POST_process \<lparr>operation_type = '''', data_source = ''db'', parameters = [(''k'', JInt 1)]\<rparr>)) \<noteq> 400"
  by simp

text \<open>
  C5, amended: for every well-formed request, an empty operationType included,
  POST /api/process returns 200 with a response containing the new task id and the status
  string "processing"; it never returns 400 or 503.
\<close>

theorem process_data_always_200:
  "status_code (app now (POST_process request)) = 200
   \<and> field (app now (POST_process request)) ''task_id'' = Some (JStr (''task_'' @ py_str_int (py_int now)))
   \<and> field (app now (POST_process request)) ''status'' = Some (JStr ''processing'')
   \<and> status_code (app now (POST_process request)) \<noteq> 400
   \<and> status_code (app now (POST_process request)) \<noteq> 503"
  by (simp add: field_JObj process_data_task_id process_data_status)

text \<open>
  C8, as the spec states it: after submitting the "echo" operation on "x" with the
  parameters {n: 3}, the completed record's result is {n: 3}. The submission at 100.25
  returns "task_100", and the lookup of "task_100" reports the result string
  "Processing completed for task_100", which is not the object {n: 3}.
\<close>

theorem echo_result_counterexample:
  "field (app 100.25
       (POST_process \<lparr>operation_type = ''echo'', data_source = ''x'', parameters = [(''n'', JInt 3)]\<rparr>))
       ''task_id'' = Some (JStr ''task_100'')
   \<and> field (app 100.5 (GET_task ''task_100'')) ''status'' = Some (JStr ''completed'')
   \<and> field (app 100.5 (GET_task ''task_100'')) ''result''
        = Some (JStr ''Processing completed for task_100'')
   \<and> field (app 100.5 (GET_task ''task_100'')) ''result'' \<noteq> Some (JObj [(''n'', JInt 3)])"
  by (simp add: field_JObj process_data_task_id get_task_status_status get_task_status_result eval_id
      routable_def)

text \<open>
  C8, amended: after submitting the "echo" operation on "x" with any parameters, every
  lookup of the returned id finds the task completed, with the result string
  "Processing completed for " followed by that id; the submitted parameters do not
  appear in it.
\<close>

theorem echo_result_is_message:
  assumes "field (respond_after hist now
       (POST_process \<lparr>operation_type = ''echo'', data_source = ''x'', parameters = ps\<rparr>)) ''task_id''
     = Some (JStr task_id)"
  shows "field (respond_after hist' now' (GET_task task_id)) ''status'' = Some (JStr ''completed'')
         \<and> field (respond_after hist' now' (GET_task task_id)) ''result''
            = Some (JStr (''Processing completed for task_'' @ py_str_int (py_int now)))"
proof -
  from assms have t: "task_id = ''task_'' @ py_str_int (py_int now)"
    by (simp add: respond_after_app field_JObj process_data_task_id)
  then have r: "routable task_id"
    by (simp only: routable_issued)
  have f: "field (respond_after hist' now' (GET_task task_id)) key = map_of (get_task_status task_id) key"
    for key
    by (simp add: respond_after_app r field_JObj)
  show ?thesis
    unfolding f by (simp add: get_task_status_status get_task_status_result t)
qed

theorem echo_result_is_message_witness:
  "field (respond_after [] 100.25
       (POST_process \<lparr>operation_type = ''echo'', data_source = ''x'', parameters = [(''n'', JInt 3)]\<rparr>))
       ''task_id'' = Some (JStr ''task_100'')
   \<and> (field (respond_after [] 100.5 (GET_task ''task_100'')) ''status'' = Some (JStr ''completed'')
      \<and> field (respond_after [] 100.5 (GET_task ''task_100'')) ''result''
         = Some (JStr ''Processing completed for task_100''))"
proof -
  have h: "field (respond_after [] 100.25
       (POST_process \<lparr>operation_type = ''echo'', data_source = ''x'', parameters = [(''n'', JInt 3)]\<rparr>))
       ''task_id'' = Some (JStr ''task_100'')"
    by (simp add: respond_after_app field_JObj process_data_task_id eval_id)
  have "py_str_int (py_int 100.25) = ''100''"
    by (simp add: eval_id)
  with h echo_result_is_message [OF h, of "[]" "100.5"] show ?thesis
    by simp
qed

end
